theory Spec2Isabelle
  imports Main "HOL-Library.Multiset"
begin

section \<open>The quick switcher component (app/components/gh-switcher.js)\<close>

subsection \<open>Data model\<close>

text \<open>
  A blog is an Ember Data record owned by the store. The component only holds references
  to such records and mutates them in place (\<^verbatim>\<open>blog.set('index', i)\<close>), so the records
  live in an explicit heap and the component's collections hold references.
\<close>

type_synonym blog_ref = nat

record blog =
  blogId :: string
  name :: string
  index :: int
  iconColor :: string

type_synonym heap = "blog_ref \<Rightarrow> blog"

text \<open>
  The values an id argument takes in the source: the initial \<^verbatim>\<open>null\<close> of the
  \<^verbatim>\<open>selectedBlog\<close> variable, \<^verbatim>\<open>undefined\<close> for a missing argument, and the strings read
  from \<^verbatim>\<open>node.dataset.blog\<close>. \<open>truthy\<close> is what JavaScript's \<^verbatim>\<open>if (id)\<close> tests.
\<close>

datatype js_value = JNull | JUndefined | JStr string

fun truthy :: "js_value \<Rightarrow> bool" where
  "truthy JNull = False"
| "truthy JUndefined = False"
| "truthy (JStr s) = (s \<noteq> [])"

text \<open>Notifications sent to the parent UI with \<^verbatim>\<open>sendAction\<close>.\<close>

datatype notification =
  BlogRemoved
  | ShowEditBlog blog_ref
  | ShowAddBlog
  | ShowPreferences
  | SwitchToBlog blog_ref

text \<open>
  The click callbacks handed to the window-menu service are closures
  \<^verbatim>\<open>() => this.send(name, ...)\<close>; a callback is represented by the action it sends.
\<close>

datatype callback =
  SendSwitchToBlog blog_ref
  | SendShowPreferences
  | SendToggle

text \<open>
  A menu item is either \<^verbatim>\<open>{type: 'separator'}\<close> or an object with an accelerator, a click
  callback and a label.
\<close>

datatype menu_item =
  Separator
  | MenuItem (accelerator: string) (click: callback) (label: string)

record menu_descriptor =
  menuName :: string
  itemClick :: callback
  itemName :: string
  itemLabel :: string
  itemAccelerator :: string
  position :: nat

text \<open>
  Everything the component does to its collaborators, in the order in which it does it:
  calls to the store and to a record, notifications to the parent, calls to the
  window-menu service, and what the context-menu handler does with its event and with the
  native menu. \<open>Popup k\<close> is \<^verbatim>\<open>editMenu.popup(...)\<close> of the menu built by the \<open>k\<close>-th run
  of \<^verbatim>\<open>_setupContextMenu\<close>. \<open>SetSelectedBlog k v\<close> is the assignment
  \<^verbatim>\<open>selectedBlog = node.dataset.blog\<close> in the handler of that run, recorded among the
  effects so that its place in the order of the handler's steps is kept.
\<close>

datatype effect =
  FindRecord string js_value
  | RandomIconColor blog_ref
  | DeleteRecord blog_ref
  | Save blog_ref
  | SendAction notification
  | AddQuickSwitchItemsToMenu callback "menu_item list"
  | InjectMenuItem menu_descriptor
  | PreventDefault
  | StopPropagation
  | SetSelectedBlog nat js_value
  | Popup nat

text \<open>
  The component's own state: the \<^verbatim>\<open>blogs\<close> collection, the minimized flag (an alias of
  the preferences service's boolean flag), the jQuery handlers attached to the component's
  root element (event name and the closure that handles it), and the \<^verbatim>\<open>selectedBlog\<close>
  variable of every closure created by \<^verbatim>\<open>_setupContextMenu\<close>. Each run of
  \<^verbatim>\<open>_setupContextMenu\<close> creates a new closure with its own variable; \<open>nextClosure\<close> is the
  number of the next one.
\<close>

record switcher =
  blogs :: "blog_ref list"
  isMinimized :: bool
  listeners :: "(string \<times> nat) list"
  selectedBlog :: "nat \<Rightarrow> js_value"
  nextClosure :: nat

subsection \<open>Sort provider\<close>

text \<open>
  \<^verbatim>\<open>sortedBlogs: computed.sort('blogs', 'sortDefinition')\<close> with
  \<^verbatim>\<open>sortDefinition: ['index']\<close>. Ember's property sort compares two items by the listed
  keys in turn with \<^verbatim>\<open>compare\<close>, ascending, and sorts a copy of the collection with that
  comparator. The comparator is modelled as written; the sort itself belongs to the
  framework and is modelled as a stable insertion sort.
\<close>

definition emberCompare :: "int \<Rightarrow> int \<Rightarrow> int" where
  "emberCompare v w = (if v < w then - 1 else if w < v then 1 else 0)"

definition sortDefinition :: "heap \<Rightarrow> blog_ref \<Rightarrow> blog_ref \<Rightarrow> int" where
  "sortDefinition h a b = emberCompare (index (h a)) (index (h b))"

fun insertBlog :: "heap \<Rightarrow> blog_ref \<Rightarrow> blog_ref list \<Rightarrow> blog_ref list" where
  "insertBlog h b [] = [b]"
| "insertBlog h b (x # xs) =
     (if sortDefinition h b x \<le> 0 then b # x # xs else x # insertBlog h b xs)"

definition sortedBlogs :: "heap \<Rightarrow> blog_ref list \<Rightarrow> blog_ref list" where
  "sortedBlogs h bs = foldr (insertBlog h) bs []"

subsection \<open>Toggle and reorder actions\<close>

text \<open>\<^verbatim>\<open>toggle() { this.toggleProperty('isMinimized'); }\<close>\<close>

definition toggle :: "switcher \<Rightarrow> switcher" where
  "toggle c = c\<lparr>isMinimized := \<not> isMinimized c\<rparr>"

text \<open>
  \<^verbatim>\<open>reorderedBogs.forEach((blog, i) => { blog.set('index', i); })\<close>: the loop over the
  sequence, with the running position \<open>i\<close>, writing into the heap.
\<close>

fun forEachSetIndex :: "blog_ref list \<Rightarrow> nat \<Rightarrow> heap \<Rightarrow> heap" where
  "forEachSetIndex [] i h = h"
| "forEachSetIndex (b # bs) i h = forEachSetIndex bs (Suc i) (h(b := (h b)\<lparr>index := int i\<rparr>))"

subsection \<open>Shortcut binder\<close>

text \<open>
  The decimal notation of a non-negative integer, as the template literal
  \<^verbatim>\<open>`CmdOrCtrl+${i + 1}`\<close> produces it.
\<close>

fun decimal :: "nat \<Rightarrow> string" where
  "decimal n =
     (if n < 10 then [char_of (48 + n)]
      else decimal (n div 10) @ [char_of (48 + n mod 10)])"

declare decimal.simps [simp del]

text \<open>
  The callback of \<^verbatim>\<open>.map((blog, i) => { blogMenuItems.push({...}); })\<close>, run over the
  sequence with the running position \<open>i\<close>; \<open>items\<close> is \<^verbatim>\<open>blogMenuItems\<close>.
\<close>

fun pushMenuItems :: "heap \<Rightarrow> blog_ref list \<Rightarrow> nat \<Rightarrow> menu_item list \<Rightarrow> menu_item list" where
  "pushMenuItems h [] i items = items"
| "pushMenuItems h (b # bs) i items =
     pushMenuItems h bs (Suc i)
       (items @ [MenuItem (''CmdOrCtrl+'' @ decimal (i + 1)) (SendSwitchToBlog b) (name (h b))])"

text \<open>
  \<^verbatim>\<open>blogMenuItems\<close> at the end of \<^verbatim>\<open>_setupQuickSwitch\<close>, from the sorted sequence:
  it starts as \<^verbatim>\<open>[{type: 'separator'}]\<close> and the loop runs over \<^verbatim>\<open>.slice(0, 8)\<close>.
\<close>

definition blogMenuItems :: "heap \<Rightarrow> blog_ref list \<Rightarrow> menu_item list" where
  "blogMenuItems h sortedSeq = pushMenuItems h (take 8 sortedSeq) 0 [Separator]"

definition setupQuickSwitch :: "heap \<Rightarrow> switcher \<Rightarrow> effect list" where
  "setupQuickSwitch h c =
     [AddQuickSwitchItemsToMenu SendShowPreferences (blogMenuItems h (sortedBlogs h (blogs c)))]"

subsection \<open>Toggle menu-item binder\<close>

definition setupMenuItem :: "effect list" where
  "setupMenuItem =
     [InjectMenuItem \<lparr>menuName = ''View'', itemClick = SendToggle,
        itemName = ''toggle-quick-switcher'', itemLabel = ''Toggle Quick Switcher'',
        itemAccelerator = ''CmdOrCtrl+Alt+Q'', position = 2\<rparr>]"

subsection \<open>Mutating operations against the store\<close>

text \<open>
  The store is an external collaborator. A promise it returns is fulfilled with a value,
  rejected, or never settled; \<^verbatim>\<open>findRecord\<close> is fulfilled with a record or with nothing.
  \<^verbatim>\<open>p.then(f)\<close> runs \<open>f\<close> only when \<open>p\<close> is fulfilled; the source passes no rejection
  handler anywhere.
\<close>

datatype 'a promise = Fulfilled 'a | Rejected | Pending

record store =
  findRecord :: "string \<Rightarrow> js_value \<Rightarrow> blog_ref option promise"
  save :: "blog_ref \<Rightarrow> unit promise"

fun thenDo :: "'a promise \<Rightarrow> ('a \<Rightarrow> effect list) \<Rightarrow> effect list" where
  "thenDo (Fulfilled v) f = f v"
| "thenDo Rejected f = []"
| "thenDo Pending f = []"

definition changeBlogColor :: "store \<Rightarrow> js_value \<Rightarrow> effect list" where
  "changeBlogColor st i =
     (if truthy i then
        FindRecord ''blog'' i #
        thenDo (findRecord st ''blog'' i) (\<lambda>result.
          case result of
            Some r \<Rightarrow> [RandomIconColor r, Save r]
          | None \<Rightarrow> [])
      else [])"

definition removeBlog :: "store \<Rightarrow> js_value \<Rightarrow> effect list" where
  "removeBlog st i =
     (if truthy i then
        FindRecord ''blog'' i #
        thenDo (findRecord st ''blog'' i) (\<lambda>result.
          case result of
            Some r \<Rightarrow>
              DeleteRecord r # Save r # thenDo (save st r) (\<lambda>_. [SendAction BlogRemoved])
          | None \<Rightarrow> [])
      else [])"

definition editBlog :: "store \<Rightarrow> js_value \<Rightarrow> effect list" where
  "editBlog st i =
     (if truthy i then
        FindRecord ''blog'' i #
        thenDo (findRecord st ''blog'' i) (\<lambda>result.
          case result of
            Some r \<Rightarrow> [SendAction (ShowEditBlog r)]
          | None \<Rightarrow> [])
      else [])"

subsection \<open>Context-menu binder\<close>

text \<open>
  A DOM node as the handler reads it: \<^verbatim>\<open>classList\<close> and \<^verbatim>\<open>dataset\<close> (absent on nodes that
  are not elements) and \<^verbatim>\<open>parentNode\<close> (\<^verbatim>\<open>null\<close> at the top of the tree).
\<close>

datatype node =
  Node (classList: "string list option") (dataset: "(string \<times> string) list option")
    (parentNode: "node option")

text \<open>
  \<^verbatim>\<open>node.classList && node.classList.contains('switch-btn') && node.dataset
  && node.dataset.blog\<close>: the last conjunct is a string, truthy when it is not empty.
\<close>

definition datasetBlog :: "node \<Rightarrow> js_value" where
  "datasetBlog n =
     (case dataset n of
        None \<Rightarrow> JUndefined
      | Some ds \<Rightarrow> (case map_of ds ''blog'' of None \<Rightarrow> JUndefined | Some s \<Rightarrow> JStr s))"

definition isSwitchBtn :: "node \<Rightarrow> bool" where
  "isSwitchBtn n =
     ((case classList n of None \<Rightarrow> False | Some cl \<Rightarrow> ''switch-btn'' \<in> set cl)
      \<and> dataset n \<noteq> None \<and> truthy (datasetBlog n))"

text \<open>
  The three items of the menu template; each \<^verbatim>\<open>click()\<close> reads the \<^verbatim>\<open>selectedBlog\<close>
  variable of its closure when it runs.
\<close>

datatype context_item = EditBlogItem | RemoveBlogItem | NewIconColorItem

definition editMenu :: "(string \<times> context_item) list" where
  "editMenu =
     [(''Edit Blog'', EditBlogItem), (''Remove Blog'', RemoveBlogItem),
      (''New Icon Color'', NewIconColorItem)]"

fun menuClick :: "store \<Rightarrow> switcher \<Rightarrow> nat \<Rightarrow> context_item \<Rightarrow> effect list" where
  "menuClick st c k EditBlogItem =
     (if truthy (selectedBlog c k) then editBlog st (selectedBlog c k) else [])"
| "menuClick st c k RemoveBlogItem =
     (if truthy (selectedBlog c k) then removeBlog st (selectedBlog c k) else [])"
| "menuClick st c k NewIconColorItem =
     (if truthy (selectedBlog c k) then changeBlogColor st (selectedBlog c k) else [])"

text \<open>
  The \<^verbatim>\<open>while (node)\<close> loop of the handler of closure \<open>k\<close>, from \<open>node\<close> upwards.
\<close>

fun whileNode :: "nat \<Rightarrow> node \<Rightarrow> switcher \<Rightarrow> switcher \<times> effect list" where
  "whileNode k (Node cl ds p) c =
     (if isSwitchBtn (Node cl ds p) then
        (c\<lparr>selectedBlog := (selectedBlog c)(k := datasetBlog (Node cl ds p))\<rparr>,
         [SetSelectedBlog k (datasetBlog (Node cl ds p)), Popup k])
      else (case p of None \<Rightarrow> (c, []) | Some q \<Rightarrow> whileNode k q c))"

definition contextmenuHandler :: "nat \<Rightarrow> node \<Rightarrow> switcher \<Rightarrow> switcher \<times> effect list" where
  "contextmenuHandler k target c =
     (let (c', es) = whileNode k target c in (c', PreventDefault # StopPropagation # es))"

text \<open>
  jQuery's \<^verbatim>\<open>.off(name)\<close> removes every handler attached for that event, \<^verbatim>\<open>.on(name, f)\<close>
  attaches one more after those already there.
\<close>

definition off :: "string \<Rightarrow> (string \<times> nat) list \<Rightarrow> (string \<times> nat) list" where
  "off ev ls = filter (\<lambda>l. fst l \<noteq> ev) ls"

definition on :: "string \<Rightarrow> nat \<Rightarrow> (string \<times> nat) list \<Rightarrow> (string \<times> nat) list" where
  "on ev k ls = ls @ [(ev, k)]"

definition setupContextMenu :: "switcher \<Rightarrow> switcher" where
  "setupContextMenu c =
     (let k = nextClosure c in
      c\<lparr>listeners := on ''contextmenu'' k (off ''contextmenu'' (listeners c)),
        selectedBlog := (selectedBlog c)(k := JNull),
        nextClosure := Suc k\<rparr>)"

text \<open>
  A right-click on \<open>target\<close> inside the component: every handler attached for
  \<^verbatim>\<open>contextmenu\<close> runs, in the order of attachment.
\<close>

fun runHandlers :: "nat list \<Rightarrow> node \<Rightarrow> switcher \<Rightarrow> switcher \<times> effect list" where
  "runHandlers [] target c = (c, [])"
| "runHandlers (k # ks) target c =
     (let (c1, es1) = contextmenuHandler k target c;
          (c2, es2) = runHandlers ks target c1
      in (c2, es1 @ es2))"

definition rightClick :: "node \<Rightarrow> switcher \<Rightarrow> switcher \<times> effect list" where
  "rightClick target c =
     runHandlers (map snd (filter (\<lambda>l. fst l = ''contextmenu'') (listeners c))) target c"

subsection \<open>Render hook and the remaining actions\<close>

definition didRender :: "heap \<Rightarrow> switcher \<Rightarrow> switcher \<times> effect list" where
  "didRender h c =
     (let c' = setupContextMenu c in (c', setupQuickSwitch h c' @ setupMenuItem))"

fun send :: "callback \<Rightarrow> switcher \<Rightarrow> switcher \<times> effect list" where
  "send (SendSwitchToBlog b) c = (c, [SendAction (SwitchToBlog b)])"
| "send SendShowPreferences c = (c, [SendAction ShowPreferences])"
| "send SendToggle c = (toggle c, [])"

definition reorderItems :: "blog_ref list \<Rightarrow> heap \<Rightarrow> switcher \<Rightarrow> heap \<times> switcher \<times> effect list" where
  "reorderItems reorderedBogs h c =
     (let h' = forEachSetIndex reorderedBogs 0 h;
          c' = setupContextMenu c
      in (h', c', setupQuickSwitch h' c' @ setupMenuItem))"

subsection \<open>Notions used to state the properties\<close>

text \<open>
  The ancestor chain of a node: the node itself, its parent, and so on up to the top of
  the tree. The first element of the chain that satisfies a predicate is the nearest one.
\<close>

fun ancestry :: "node \<Rightarrow> node list" where
  "ancestry (Node cl ds p) = Node cl ds p # (case p of None \<Rightarrow> [] | Some q \<Rightarrow> ancestry q)"

fun isPopup :: "effect \<Rightarrow> bool" where
  "isPopup (Popup k) = True"
| "isPopup e = False"

text \<open>
  A small concrete configuration: three blogs \<open>1\<close>, \<open>2\<close>, \<open>3\<close>; a store that knows the ids
  \<^verbatim>\<open>"1"\<close> and \<^verbatim>\<open>"2"\<close>, finds nothing for any other id, and saves blog \<open>1\<close> but rejects
  saving any other record; a component that has not bound anything yet.
\<close>

definition exampleHeap :: heap where
  "exampleHeap r = \<lparr>blogId = decimal r, name = ''Blog '' @ decimal r,
      index = int r, iconColor = ''#008000''\<rparr>"

definition exampleStore :: store where
  "exampleStore =
     \<lparr>findRecord = (\<lambda>t i.
          if i = JStr ''1'' then Fulfilled (Some 1)
          else if i = JStr ''2'' then Fulfilled (Some 2)
          else Fulfilled None),
      save = (\<lambda>r. if r = 1 then Fulfilled () else Rejected)\<rparr>"

definition exampleSwitcher :: switcher where
  "exampleSwitcher =
     \<lparr>blogs = [1, 2, 3], isMinimized = False, listeners = [],
      selectedBlog = (\<lambda>k. JNull), nextClosure = 0\<rparr>"

text \<open>
  A small concrete tree: the document node (no class list, no dataset); below it the
  component's root element; below that an element with the class \<^verbatim>\<open>switch-btn\<close> and
  \<^verbatim>\<open>data-blog="9"\<close>, which holds a list element with the class \<^verbatim>\<open>switch-btn\<close> but no
  \<^verbatim>\<open>data-blog\<close>; below the list a button with the class \<^verbatim>\<open>switch-btn\<close> and
  \<^verbatim>\<open>data-blog="7"\<close>, which holds an icon; and, below the root, a button with the class
  \<^verbatim>\<open>switch-btn\<close> and an empty \<^verbatim>\<open>data-blog\<close>.
\<close>

definition exampleDocument :: node where
  "exampleDocument = Node None None None"

definition exampleRoot :: node where
  "exampleRoot = Node (Some [''switcher'', ''win-height-adjusted'']) (Some []) (Some exampleDocument)"

definition exampleOuter :: node where
  "exampleOuter = Node (Some [''switch-btn'']) (Some [(''blog'', ''9'')]) (Some exampleRoot)"

definition exampleList :: node where
  "exampleList = Node (Some [''switch-btn'']) (Some [(''index'', ''0'')]) (Some exampleOuter)"

definition exampleButton :: node where
  "exampleButton =
     Node (Some [''sortable-item'', ''switch-btn'']) (Some [(''index'', ''0''), (''blog'', ''7'')])
       (Some exampleList)"

definition exampleIcon :: node where
  "exampleIcon = Node (Some [''icon'']) (Some []) (Some exampleButton)"

definition exampleEmptyButton :: node where
  "exampleEmptyButton = Node (Some [''switch-btn'']) (Some [(''blog'', [])]) (Some exampleRoot)"

section \<open>Properties\<close>

subsection \<open>Sort provider\<close>

lemma mset_insertBlog: "mset (insertBlog h b xs) = add_mset b (mset xs)"
  by (induction xs) auto

lemma set_insertBlog: "set (insertBlog h b xs) = insert b (set xs)"
  by (induction xs) auto

lemma sorted_insertBlog:
  "sorted (map (\<lambda>b. index (h b)) xs) \<Longrightarrow> sorted (map (\<lambda>b. index (h b)) (insertBlog h b xs))"
  by (induction xs)
    (auto simp: set_insertBlog sortDefinition_def emberCompare_def split: if_splits)

lemma mset_sortedBlogs: "mset (sortedBlogs h bs) = mset bs"
  by (induction bs) (auto simp: sortedBlogs_def mset_insertBlog)

lemma sorted_sortedBlogs: "sorted (map (\<lambda>b. index (h b)) (sortedBlogs h bs))"
  by (induction bs) (auto simp: sortedBlogs_def sorted_insertBlog)

text \<open>
  C9. For every collection of blogs, the sorted sequence holds the blogs of the collection
  in ascending order of their \<open>index\<close> field; and after the \<open>index\<close> of any one blog \<open>b\<close> has
  been changed to any value \<open>v\<close>, the recomputed sequence holds the same blogs in ascending
  order of the new \<open>index\<close> values.
\<close>

theorem sortedBlogs_ascending_by_index:
  "sorted (map (\<lambda>b. index (h b)) (sortedBlogs h bs)) \<and> mset (sortedBlogs h bs) = mset bs
   \<and> (let h' = h(b := (h b)\<lparr>index := v\<rparr>) in
        sorted (map (\<lambda>b. index (h' b)) (sortedBlogs h' bs))
        \<and> mset (sortedBlogs h' bs) = mset bs)"
  by (simp add: Let_def sorted_sortedBlogs mset_sortedBlogs del: fun_upd_apply)

subsection \<open>Shortcut binder\<close>

lemma pushMenuItems_eq:
  "pushMenuItems h bs i items =
     items @ map (\<lambda>j. MenuItem (''CmdOrCtrl+'' @ decimal (i + j + 1))
                      (SendSwitchToBlog (bs ! j)) (name (h (bs ! j)))) [0..<length bs]"
proof (induction bs arbitrary: i items)
  case Nil
  then show ?case by simp
next
  case (Cons b bs)
  have "[0..<length (b # bs)] = 0 # map Suc [0..<length bs]"
    by (simp add: upt_conv_Cons map_Suc_upt del: upt_Suc)
  then show ?case
    by (simp add: Cons.IH comp_def del: upt_Suc)
qed

lemma accelerators_1_to_8:
  "map (\<lambda>i. ''CmdOrCtrl+'' @ decimal (i + 1)) [0..<8] =
     [''CmdOrCtrl+1'', ''CmdOrCtrl+2'', ''CmdOrCtrl+3'', ''CmdOrCtrl+4'',
      ''CmdOrCtrl+5'', ''CmdOrCtrl+6'', ''CmdOrCtrl+7'', ''CmdOrCtrl+8'']"
  by code_simp

lemma accelerator_digit:
  assumes "i < 8"
  shows "''CmdOrCtrl+'' @ decimal (i + 1) =
     [''CmdOrCtrl+1'', ''CmdOrCtrl+2'', ''CmdOrCtrl+3'', ''CmdOrCtrl+4'',
      ''CmdOrCtrl+5'', ''CmdOrCtrl+6'', ''CmdOrCtrl+7'', ''CmdOrCtrl+8''] ! i"
proof -
  from assms have "map (\<lambda>i. ''CmdOrCtrl+'' @ decimal (i + 1)) [0..<8] ! i
      = ''CmdOrCtrl+'' @ decimal (i + 1)"
    by (simp del: upt_Suc)
  then show ?thesis
    by (simp only: accelerators_1_to_8)
qed

lemma length_sortedBlogs: "length (sortedBlogs h bs) = length bs"
proof -
  have "size (mset (sortedBlogs h bs)) = size (mset bs)"
    by (simp only: mset_sortedBlogs)
  then show ?thesis by simp
qed

lemma blogMenuItems_eq:
  "blogMenuItems h s =
     Separator #
     map (\<lambda>i. MenuItem
            ([''CmdOrCtrl+1'', ''CmdOrCtrl+2'', ''CmdOrCtrl+3'', ''CmdOrCtrl+4'',
              ''CmdOrCtrl+5'', ''CmdOrCtrl+6'', ''CmdOrCtrl+7'', ''CmdOrCtrl+8''] ! i)
            (SendSwitchToBlog (s ! i)) (name (h (s ! i))))
       [0..<min (length s) 8]"
proof -
  have "map (\<lambda>j. MenuItem (''CmdOrCtrl+'' @ decimal (0 + j + 1))
                 (SendSwitchToBlog (take 8 s ! j)) (name (h (take 8 s ! j))))
          [0..<length (take 8 s)]
      = map (\<lambda>i. MenuItem
            ([''CmdOrCtrl+1'', ''CmdOrCtrl+2'', ''CmdOrCtrl+3'', ''CmdOrCtrl+4'',
              ''CmdOrCtrl+5'', ''CmdOrCtrl+6'', ''CmdOrCtrl+7'', ''CmdOrCtrl+8''] ! i)
            (SendSwitchToBlog (s ! i)) (name (h (s ! i))))
          [0..<min (length s) 8]"
    by (rule map_cong)
      (simp_all only: accelerator_digit length_take set_upt atLeastLessThan_iff
         min_less_iff_conj nth_take add_0)
  then show ?thesis
    unfolding blogMenuItems_def pushMenuItems_eq by simp
qed

text \<open>
  C1. For every heap and component state, \<^verbatim>\<open>_setupQuickSwitch\<close> makes exactly one call,
  \<^verbatim>\<open>addQuickSwitchItemsToMenu\<close>, with the show-preferences callback and a menu-item list
  built from the component's sorted blog sequence \<open>sortedBlogs h (blogs c)\<close> of length \<open>n\<close>:
  one separator followed by exactly \<open>min n 8\<close> entries, the \<open>i\<close>-th of which has the
  accelerator \<^verbatim>\<open>CmdOrCtrl+\<close>\<open>(i+1)\<close>, switches to the \<open>i\<close>-th blog in sorted order and is
  labelled with that blog's name; nothing pads the list when there are fewer than 8 blogs.
  The list is built in the same way from every sequence \<open>s\<close> put in the place of the sorted
  one.
\<close>

theorem setupQuickSwitch_menu_items:
  "setupQuickSwitch h c =
     [AddQuickSwitchItemsToMenu SendShowPreferences
        (Separator #
         map (\<lambda>i. MenuItem
                ([''CmdOrCtrl+1'', ''CmdOrCtrl+2'', ''CmdOrCtrl+3'', ''CmdOrCtrl+4'',
                  ''CmdOrCtrl+5'', ''CmdOrCtrl+6'', ''CmdOrCtrl+7'', ''CmdOrCtrl+8''] ! i)
                (SendSwitchToBlog (sortedBlogs h (blogs c) ! i))
                (name (h (sortedBlogs h (blogs c) ! i))))
           [0..<min (length (blogs c)) 8])]
   \<and> sorted (map (\<lambda>b. index (h b)) (sortedBlogs h (blogs c)))
   \<and> mset (sortedBlogs h (blogs c)) = mset (blogs c)
   \<and> blogMenuItems h s =
       Separator #
       map (\<lambda>i. MenuItem
              ([''CmdOrCtrl+1'', ''CmdOrCtrl+2'', ''CmdOrCtrl+3'', ''CmdOrCtrl+4'',
                ''CmdOrCtrl+5'', ''CmdOrCtrl+6'', ''CmdOrCtrl+7'', ''CmdOrCtrl+8''] ! i)
              (SendSwitchToBlog (s ! i)) (name (h (s ! i))))
         [0..<min (length s) 8]"
proof -
  have "setupQuickSwitch h c =
     [AddQuickSwitchItemsToMenu SendShowPreferences
        (blogMenuItems h (sortedBlogs h (blogs c)))]"
    by (simp only: setupQuickSwitch_def)
  then have "setupQuickSwitch h c =
     [AddQuickSwitchItemsToMenu SendShowPreferences
        (Separator #
         map (\<lambda>i. MenuItem
                ([''CmdOrCtrl+1'', ''CmdOrCtrl+2'', ''CmdOrCtrl+3'', ''CmdOrCtrl+4'',
                  ''CmdOrCtrl+5'', ''CmdOrCtrl+6'', ''CmdOrCtrl+7'', ''CmdOrCtrl+8''] ! i)
                (SendSwitchToBlog (sortedBlogs h (blogs c) ! i))
                (name (h (sortedBlogs h (blogs c) ! i))))
           [0..<min (length (blogs c)) 8])]"
    by (simp only: blogMenuItems_eq [of h "sortedBlogs h (blogs c)"] length_sortedBlogs)
  moreover note sorted_sortedBlogs [of h "blogs c"] mset_sortedBlogs [of h "blogs c"]
    blogMenuItems_eq [of h s]
  ultimately show ?thesis by (intro conjI)
qed

theorem setupQuickSwitch_menu_items_witness:
  "setupQuickSwitch exampleHeap (exampleSwitcher\<lparr>blogs := [9, 3, 1, 8, 2, 7, 4, 6, 5]\<rparr>) =
     [AddQuickSwitchItemsToMenu SendShowPreferences
        [Separator,
         MenuItem ''CmdOrCtrl+1'' (SendSwitchToBlog 1) ''Blog 1'',
         MenuItem ''CmdOrCtrl+2'' (SendSwitchToBlog 2) ''Blog 2'',
         MenuItem ''CmdOrCtrl+3'' (SendSwitchToBlog 3) ''Blog 3'',
         MenuItem ''CmdOrCtrl+4'' (SendSwitchToBlog 4) ''Blog 4'',
         MenuItem ''CmdOrCtrl+5'' (SendSwitchToBlog 5) ''Blog 5'',
         MenuItem ''CmdOrCtrl+6'' (SendSwitchToBlog 6) ''Blog 6'',
         MenuItem ''CmdOrCtrl+7'' (SendSwitchToBlog 7) ''Blog 7'',
         MenuItem ''CmdOrCtrl+8'' (SendSwitchToBlog 8) ''Blog 8'']]
   \<and> setupQuickSwitch exampleHeap (exampleSwitcher\<lparr>blogs := [2, 1]\<rparr>) =
     [AddQuickSwitchItemsToMenu SendShowPreferences
        [Separator,
         MenuItem ''CmdOrCtrl+1'' (SendSwitchToBlog 1) ''Blog 1'',
         MenuItem ''CmdOrCtrl+2'' (SendSwitchToBlog 2) ''Blog 2'']]
   \<and> setupQuickSwitch exampleHeap (exampleSwitcher\<lparr>blogs := []\<rparr>) =
     [AddQuickSwitchItemsToMenu SendShowPreferences [Separator]]"
proof -
  let ?registered = "\<lambda>c.
     [AddQuickSwitchItemsToMenu SendShowPreferences
        (Separator #
         map (\<lambda>i. MenuItem
                ([''CmdOrCtrl+1'', ''CmdOrCtrl+2'', ''CmdOrCtrl+3'', ''CmdOrCtrl+4'',
                  ''CmdOrCtrl+5'', ''CmdOrCtrl+6'', ''CmdOrCtrl+7'', ''CmdOrCtrl+8''] ! i)
                (SendSwitchToBlog (sortedBlogs exampleHeap (blogs c) ! i))
                (name (exampleHeap (sortedBlogs exampleHeap (blogs c) ! i))))
           [0..<min (length (blogs c)) 8])]"
  let ?nine = "exampleSwitcher\<lparr>blogs := [9, 3, 1, 8, 2, 7, 4, 6, 5]\<rparr>"
  let ?two = "exampleSwitcher\<lparr>blogs := [2, 1]\<rparr>"
  let ?none = "exampleSwitcher\<lparr>blogs := []\<rparr>"
  have "setupQuickSwitch exampleHeap ?nine = ?registered ?nine"
    by (rule setupQuickSwitch_menu_items [of exampleHeap ?nine "[]", THEN conjunct1])
  also have "?registered ?nine =
     [AddQuickSwitchItemsToMenu SendShowPreferences
        [Separator,
         MenuItem ''CmdOrCtrl+1'' (SendSwitchToBlog 1) ''Blog 1'',
         MenuItem ''CmdOrCtrl+2'' (SendSwitchToBlog 2) ''Blog 2'',
         MenuItem ''CmdOrCtrl+3'' (SendSwitchToBlog 3) ''Blog 3'',
         MenuItem ''CmdOrCtrl+4'' (SendSwitchToBlog 4) ''Blog 4'',
         MenuItem ''CmdOrCtrl+5'' (SendSwitchToBlog 5) ''Blog 5'',
         MenuItem ''CmdOrCtrl+6'' (SendSwitchToBlog 6) ''Blog 6'',
         MenuItem ''CmdOrCtrl+7'' (SendSwitchToBlog 7) ''Blog 7'',
         MenuItem ''CmdOrCtrl+8'' (SendSwitchToBlog 8) ''Blog 8'']]"
    by code_simp
  finally have nine: "setupQuickSwitch exampleHeap ?nine =
     [AddQuickSwitchItemsToMenu SendShowPreferences
        [Separator,
         MenuItem ''CmdOrCtrl+1'' (SendSwitchToBlog 1) ''Blog 1'',
         MenuItem ''CmdOrCtrl+2'' (SendSwitchToBlog 2) ''Blog 2'',
         MenuItem ''CmdOrCtrl+3'' (SendSwitchToBlog 3) ''Blog 3'',
         MenuItem ''CmdOrCtrl+4'' (SendSwitchToBlog 4) ''Blog 4'',
         MenuItem ''CmdOrCtrl+5'' (SendSwitchToBlog 5) ''Blog 5'',
         MenuItem ''CmdOrCtrl+6'' (SendSwitchToBlog 6) ''Blog 6'',
         MenuItem ''CmdOrCtrl+7'' (SendSwitchToBlog 7) ''Blog 7'',
         MenuItem ''CmdOrCtrl+8'' (SendSwitchToBlog 8) ''Blog 8'']]" .
  have "setupQuickSwitch exampleHeap ?two = ?registered ?two"
    by (rule setupQuickSwitch_menu_items [of exampleHeap ?two "[]", THEN conjunct1])
  also have "?registered ?two =
     [AddQuickSwitchItemsToMenu SendShowPreferences
        [Separator,
         MenuItem ''CmdOrCtrl+1'' (SendSwitchToBlog 1) ''Blog 1'',
         MenuItem ''CmdOrCtrl+2'' (SendSwitchToBlog 2) ''Blog 2'']]"
    by code_simp
  finally have two: "setupQuickSwitch exampleHeap ?two =
     [AddQuickSwitchItemsToMenu SendShowPreferences
        [Separator,
         MenuItem ''CmdOrCtrl+1'' (SendSwitchToBlog 1) ''Blog 1'',
         MenuItem ''CmdOrCtrl+2'' (SendSwitchToBlog 2) ''Blog 2'']]" .
  have "setupQuickSwitch exampleHeap ?none = ?registered ?none"
    by (rule setupQuickSwitch_menu_items [of exampleHeap ?none "[]", THEN conjunct1])
  also have "?registered ?none = [AddQuickSwitchItemsToMenu SendShowPreferences [Separator]]"
    by code_simp
  finally have none: "setupQuickSwitch exampleHeap ?none =
     [AddQuickSwitchItemsToMenu SendShowPreferences [Separator]]" .
  from nine two none show ?thesis by (intro conjI)
qed

subsection \<open>Reorder\<close>

lemma forEachSetIndex_other: "b \<notin> set bs \<Longrightarrow> forEachSetIndex bs i h b = h b"
  by (induction bs i h rule: forEachSetIndex.induct) auto

lemma forEachSetIndex_nth:
  "distinct bs \<Longrightarrow> j < length bs \<Longrightarrow>
     forEachSetIndex bs i h (bs ! j) = (h (bs ! j))\<lparr>index := int (i + j)\<rparr>"
proof (induction bs arbitrary: i h j)
  case Nil
  then show ?case by simp
next
  case (Cons b bs)
  show ?case
  proof (cases j)
    case 0
    with Cons.prems show ?thesis by (simp add: forEachSetIndex_other)
  next
    case (Suc j')
    let ?h = "h(b := (h b)\<lparr>index := int i\<rparr>)"
    from Cons.prems Suc have d: "distinct bs" and l: "j' < length bs" and ne: "bs ! j' \<noteq> b"
      by auto
    have "forEachSetIndex bs (Suc i) ?h (bs ! j') = (?h (bs ! j'))\<lparr>index := int (Suc i + j')\<rparr>"
      by (rule Cons.IH [OF d l])
    with ne Suc show ?thesis by simp
  qed
qed

text \<open>
  C2. For every sequence of blogs passed to \<^verbatim>\<open>reorderItems\<close>, afterwards every blog of the
  sequence has its \<open>index\<close> field equal to its 0-based position in the sequence, and is
  otherwise the record it was. A blog has a position in the sequence when it occurs there
  once, as it does in every reordering of the list; the sequence holds references, and the
  records are written in place. For \<^verbatim>\<open>[B3, B1, B2]\<close> the indices become 0, 1 and 2.
\<close>

theorem reorderItems_index_is_position:
  "distinct bs \<Longrightarrow> i < length bs \<Longrightarrow>
     index (fst (reorderItems bs h c) (bs ! i)) = int i
     \<and> fst (reorderItems bs h c) (bs ! i) = (h (bs ! i))\<lparr>index := int i\<rparr>"
  by (simp add: reorderItems_def Let_def forEachSetIndex_nth)

theorem reorderItems_index_is_position_witness:
  "distinct [3, 1, 2 :: nat] \<and> (0::nat) < length [3, 1, 2 :: nat]
   \<and> index (fst (reorderItems [3, 1, 2] exampleHeap exampleSwitcher) 3) = 0
   \<and> index (fst (reorderItems [3, 1, 2] exampleHeap exampleSwitcher) 1) = 1
   \<and> index (fst (reorderItems [3, 1, 2] exampleHeap exampleSwitcher) 2) = 2"
proof -
  have d: "distinct [3, 1, 2 :: nat]" by simp
  show ?thesis
    using d reorderItems_index_is_position [OF d, of 0 exampleHeap exampleSwitcher]
      reorderItems_index_is_position [OF d, of 1 exampleHeap exampleSwitcher]
      reorderItems_index_is_position [OF d, of 2 exampleHeap exampleSwitcher]
    by simp
qed

subsection \<open>Mutating operations against the store\<close>

text \<open>
  C3. For every id for which the fetch is made and fulfilled with a record \<open>r\<close>,
  \<^verbatim>\<open>removeBlog\<close> fetches, marks \<open>r\<close> for deletion, saves it, and then, if and only if the
  save is fulfilled, sends exactly one \<^verbatim>\<open>blogRemoved\<close> notification, after the deletion
  and the save; when the save does not succeed nothing is sent.
\<close>

theorem removeBlog_deletes_saves_then_notifies:
  "truthy i \<Longrightarrow> findRecord st ''blog'' i = Fulfilled (Some r) \<Longrightarrow>
     removeBlog st i =
       [FindRecord ''blog'' i, DeleteRecord r, Save r]
       @ (if save st r = Fulfilled () then [SendAction BlogRemoved] else [])"
  by (cases "save st r") (simp_all add: removeBlog_def)

theorem removeBlog_deletes_saves_then_notifies_witness:
  "truthy (JStr ''1'') \<and> findRecord exampleStore ''blog'' (JStr ''1'') = Fulfilled (Some 1)
   \<and> removeBlog exampleStore (JStr ''1'') =
       [FindRecord ''blog'' (JStr ''1''), DeleteRecord 1, Save 1, SendAction BlogRemoved]
   \<and> truthy (JStr ''2'') \<and> findRecord exampleStore ''blog'' (JStr ''2'') = Fulfilled (Some 2)
   \<and> removeBlog exampleStore (JStr ''2'') =
       [FindRecord ''blog'' (JStr ''2''), DeleteRecord 2, Save 2]"
proof -
  have a1: "truthy (JStr ''1'')" and a2: "truthy (JStr ''2'')" by simp_all
  have b1: "findRecord exampleStore ''blog'' (JStr ''1'') = Fulfilled (Some 1)"
    and b2: "findRecord exampleStore ''blog'' (JStr ''2'') = Fulfilled (Some 2)"
    by (simp_all add: exampleStore_def)
  have s1: "save exampleStore 1 = Fulfilled ()" and s2: "save exampleStore 2 \<noteq> Fulfilled ()"
    by (simp_all add: exampleStore_def)
  show ?thesis
    using a1 a2 b1 b2 s1 s2
      removeBlog_deletes_saves_then_notifies [OF a1 b1]
      removeBlog_deletes_saves_then_notifies [OF a2 b2]
    by simp
qed

text \<open>
  C4. For every id for which the fetch yields no record (it is fulfilled with nothing, is
  rejected, or never settles), each of \<^verbatim>\<open>changeBlogColor\<close>, \<^verbatim>\<open>removeBlog\<close> and \<^verbatim>\<open>editBlog\<close>
  does nothing but the fetch: no recolor, no \<^verbatim>\<open>deleteRecord\<close>, no \<^verbatim>\<open>save\<close>, no
  notification to the parent.
\<close>

theorem fetch_miss_is_silent_noop:
  "findRecord st ''blog'' i \<in> {Fulfilled None, Rejected, Pending} \<Longrightarrow>
     changeBlogColor st i = (if truthy i then [FindRecord ''blog'' i] else [])
     \<and> removeBlog st i = (if truthy i then [FindRecord ''blog'' i] else [])
     \<and> editBlog st i = (if truthy i then [FindRecord ''blog'' i] else [])"
  by (auto simp: changeBlogColor_def removeBlog_def editBlog_def)

theorem fetch_miss_is_silent_noop_witness:
  "findRecord exampleStore ''blog'' (JStr ''9'') \<in> {Fulfilled None, Rejected, Pending}
   \<and> changeBlogColor exampleStore (JStr ''9'') = [FindRecord ''blog'' (JStr ''9'')]
   \<and> removeBlog exampleStore (JStr ''9'') = [FindRecord ''blog'' (JStr ''9'')]
   \<and> editBlog exampleStore (JStr ''9'') = [FindRecord ''blog'' (JStr ''9'')]"
proof -
  have a: "findRecord exampleStore ''blog'' (JStr ''9'') \<in> {Fulfilled None, Rejected, Pending}"
    by (simp add: exampleStore_def)
  show ?thesis
    using a fetch_miss_is_silent_noop [OF a] by simp
qed

text \<open>
  C10. For every falsy id (\<^verbatim>\<open>null\<close>, \<^verbatim>\<open>undefined\<close>, the empty string), each of
  \<^verbatim>\<open>changeBlogColor\<close>, \<^verbatim>\<open>removeBlog\<close> and \<^verbatim>\<open>editBlog\<close> returns without any call to the
  store, not even the fetch, and without any notification.
\<close>

theorem falsy_id_makes_no_store_call:
  "\<not> truthy i \<Longrightarrow>
     changeBlogColor st i = [] \<and> removeBlog st i = [] \<and> editBlog st i = []"
  by (simp add: changeBlogColor_def removeBlog_def editBlog_def)

theorem falsy_id_makes_no_store_call_witness:
  "\<not> truthy JNull \<and> changeBlogColor exampleStore JNull = []
     \<and> removeBlog exampleStore JNull = [] \<and> editBlog exampleStore JNull = []
   \<and> \<not> truthy JUndefined \<and> changeBlogColor exampleStore JUndefined = []
     \<and> removeBlog exampleStore JUndefined = [] \<and> editBlog exampleStore JUndefined = []
   \<and> \<not> truthy (JStr []) \<and> changeBlogColor exampleStore (JStr []) = []
     \<and> removeBlog exampleStore (JStr []) = [] \<and> editBlog exampleStore (JStr []) = []"
proof -
  have a: "\<not> truthy JNull" and b: "\<not> truthy JUndefined" and c: "\<not> truthy (JStr [])"
    by simp_all
  show ?thesis
    using a b c falsy_id_makes_no_store_call [OF a, of exampleStore]
      falsy_id_makes_no_store_call [OF b, of exampleStore]
      falsy_id_makes_no_store_call [OF c, of exampleStore]
    by simp
qed

subsection \<open>Toggle\<close>

text \<open>
  C7. For every starting value of the minimized flag, one toggle negates the flag, two
  toggles give back the original value, and a toggle changes nothing else of the
  component's state: putting the old flag back gives the old state.
\<close>

theorem toggle_negates_and_twice_restores:
  "isMinimized (toggle c) = (\<not> isMinimized c)
   \<and> isMinimized (toggle (toggle c)) = isMinimized c
   \<and> toggle (toggle c) = c
   \<and> (toggle c)\<lparr>isMinimized := isMinimized c\<rparr> = c"
  by (simp add: toggle_def)

subsection \<open>Context-menu binder\<close>

lemma whileNode_nearest:
  "whileNode k target c =
     (case List.map_filter
             (\<lambda>n. case classList n of
                     None \<Rightarrow> None
                   | Some cl \<Rightarrow>
                       (case dataset n of
                          None \<Rightarrow> None
                        | Some ds \<Rightarrow>
                            (case map_of ds ''blog'' of
                               None \<Rightarrow> None
                             | Some s \<Rightarrow>
                                 if ''switch-btn'' \<in> set cl \<and> s \<noteq> [] then Some s else None)))
             (ancestry target) of
        [] \<Rightarrow> (c, [])
      | s # rest \<Rightarrow>
          (c\<lparr>selectedBlog := (selectedBlog c)(k := JStr s)\<rparr>,
           [SetSelectedBlog k (JStr s), Popup k]))"
  by (induction k target c rule: whileNode.induct)
    (simp add: isSwitchBtn_def datasetBlog_def map_filter_simps split: option.splits)

text \<open>
  C5. For every right-click, the handler walks up from the click target. If some node of
  the ancestor chain, the target included, has the class \<^verbatim>\<open>switch-btn\<close> in its class list
  and carries a blog id, that is a non-empty value \<open>s\<close> of the \<^verbatim>\<open>data-blog\<close> attribute, the
  handler stores the blog id of the nearest such node in its \<^verbatim>\<open>selectedBlog\<close> variable and
  then pops the menu up, once, in that order; if there is no such node, no menu pops up and
  the component's state, \<^verbatim>\<open>selectedBlog\<close> included, is unchanged. In both cases the
  event's default is prevented and its propagation stopped first. The list in the
  statement holds the blog ids carried by the switch buttons of the ancestor chain, nearest
  first.
\<close>

theorem contextmenu_selects_nearest_switch_button:
  "contextmenuHandler k target c =
     (case List.map_filter
             (\<lambda>n. case classList n of
                     None \<Rightarrow> None
                   | Some cl \<Rightarrow>
                       (case dataset n of
                          None \<Rightarrow> None
                        | Some ds \<Rightarrow>
                            (case map_of ds ''blog'' of
                               None \<Rightarrow> None
                             | Some s \<Rightarrow>
                                 if ''switch-btn'' \<in> set cl \<and> s \<noteq> [] then Some s else None)))
             (ancestry target) of
        [] \<Rightarrow> (c, [PreventDefault, StopPropagation])
      | s # rest \<Rightarrow>
          (c\<lparr>selectedBlog := (selectedBlog c)(k := JStr s)\<rparr>,
           [PreventDefault, StopPropagation, SetSelectedBlog k (JStr s), Popup k]))"
  by (simp add: contextmenuHandler_def whileNode_nearest split: list.splits)

theorem contextmenu_selects_nearest_switch_button_witness:
  "contextmenuHandler 0 exampleIcon exampleSwitcher =
     (exampleSwitcher\<lparr>selectedBlog := (selectedBlog exampleSwitcher)(0 := JStr ''7'')\<rparr>,
      [PreventDefault, StopPropagation, SetSelectedBlog 0 (JStr ''7''), Popup 0])
   \<and> contextmenuHandler 0 exampleButton exampleSwitcher =
     (exampleSwitcher\<lparr>selectedBlog := (selectedBlog exampleSwitcher)(0 := JStr ''7'')\<rparr>,
      [PreventDefault, StopPropagation, SetSelectedBlog 0 (JStr ''7''), Popup 0])
   \<and> contextmenuHandler 0 exampleList exampleSwitcher =
     (exampleSwitcher\<lparr>selectedBlog := (selectedBlog exampleSwitcher)(0 := JStr ''9'')\<rparr>,
      [PreventDefault, StopPropagation, SetSelectedBlog 0 (JStr ''9''), Popup 0])
   \<and> contextmenuHandler 0 exampleRoot exampleSwitcher =
     (exampleSwitcher, [PreventDefault, StopPropagation])
   \<and> contextmenuHandler 0 exampleEmptyButton exampleSwitcher =
     (exampleSwitcher, [PreventDefault, StopPropagation])"
  using contextmenu_selects_nearest_switch_button [of 0 exampleIcon exampleSwitcher]
    contextmenu_selects_nearest_switch_button [of 0 exampleButton exampleSwitcher]
    contextmenu_selects_nearest_switch_button [of 0 exampleList exampleSwitcher]
    contextmenu_selects_nearest_switch_button [of 0 exampleRoot exampleSwitcher]
    contextmenu_selects_nearest_switch_button [of 0 exampleEmptyButton exampleSwitcher]
  by (simp add: exampleIcon_def exampleButton_def exampleList_def exampleOuter_def
      exampleRoot_def exampleDocument_def exampleEmptyButton_def map_filter_simps)

text \<open>
  C6. For each of the three context-menu actions, if the \<^verbatim>\<open>selectedBlog\<close> variable is unset
  (\<^verbatim>\<open>null\<close>, or any other falsy value) when the action fires, nothing happens: no call to
  the store and no notification.
\<close>

theorem unset_selection_skips_menu_action:
  "\<not> truthy (selectedBlog c k) \<Longrightarrow> menuClick st c k a = []"
  by (cases a) simp_all

theorem unset_selection_skips_menu_action_witness:
  "\<not> truthy (selectedBlog (setupContextMenu exampleSwitcher) 0)
   \<and> menuClick exampleStore (setupContextMenu exampleSwitcher) 0 EditBlogItem = []
   \<and> menuClick exampleStore (setupContextMenu exampleSwitcher) 0 RemoveBlogItem = []
   \<and> menuClick exampleStore (setupContextMenu exampleSwitcher) 0 NewIconColorItem = []"
proof -
  have a: "\<not> truthy (selectedBlog (setupContextMenu exampleSwitcher) 0)"
    by (simp add: setupContextMenu_def exampleSwitcher_def)
  show ?thesis
    using a unset_selection_skips_menu_action [OF a, of exampleStore EditBlogItem]
      unset_selection_skips_menu_action [OF a, of exampleStore RemoveBlogItem]
      unset_selection_skips_menu_action [OF a, of exampleStore NewIconColorItem]
    by (simp del: menuClick.simps)
qed

lemma off_then_on: "filter (\<lambda>l. fst l = ev) (on ev k (off ev ls)) = [(ev, k)]"
  by (induction ls) (auto simp: on_def off_def)

lemma setupContextMenu_listeners:
  "filter (\<lambda>l. fst l = ''contextmenu'') (listeners (setupContextMenu c))
     = [(''contextmenu'', nextClosure c)]"
  by (simp add: setupContextMenu_def Let_def off_then_on)

lemma nextClosure_funpow: "nextClosure ((setupContextMenu ^^ n) c) = nextClosure c + n"
  by (induction n) (simp_all add: setupContextMenu_def Let_def)

lemma contextmenuHandler_popups:
  "length (filter isPopup (snd (contextmenuHandler k target c))) \<le> 1"
  by (simp add: contextmenuHandler_def whileNode_nearest split: list.splits)

text \<open>
  C8. However many times \<^verbatim>\<open>_setupContextMenu\<close> has run (once or more), exactly one
  \<^verbatim>\<open>contextmenu\<close> handler is attached to the component's root element afterwards, the one
  of the last run, whatever was attached before the first run; and one right-click then
  pops up at most one menu.
\<close>

theorem rebinding_leaves_one_contextmenu_handler:
  "filter (\<lambda>l. fst l = ''contextmenu'') (listeners ((setupContextMenu ^^ Suc n) c))
     = [(''contextmenu'', nextClosure c + n)]
   \<and> length (filter isPopup (snd (rightClick target ((setupContextMenu ^^ Suc n) c)))) \<le> 1"
proof -
  have l: "filter (\<lambda>l. fst l = ''contextmenu'') (listeners ((setupContextMenu ^^ Suc n) c))
     = [(''contextmenu'', nextClosure c + n)]"
    by (simp add: setupContextMenu_listeners nextClosure_funpow)
  have "snd (rightClick target ((setupContextMenu ^^ Suc n) c))
      = snd (contextmenuHandler (nextClosure c + n) target ((setupContextMenu ^^ Suc n) c))"
    unfolding rightClick_def l by (simp add: split_beta)
  with l contextmenuHandler_popups show ?thesis by simp
qed

end
